theory Spec2Isabelle
  imports Main
begin

unbundle bit_operations_syntax

section \<open>The syslog dispatch unit libc/syslog/lib_syslog.c\<close>

text \<open>
  The unit consists of three C functions: \<open>vsyslog_internal\<close>, \<open>vsyslog\<close> and
  \<open>syslog\<close>. Which of their lines exist is decided by the preprocessor, so the build
  configuration is an explicit parameter of the model and every \<open>#if\<close> becomes an
  \<open>if\<close> on it. Everything the unit calls but does not define (the clock, the
  formatted-output engine, the low-level fallback, the interrupt test) is a field of a
  record of external collaborators; every call to one of them is recorded in a trace.
\<close>

subsection \<open>Build configuration\<close>

text \<open>
  \<open>KERNEL\<close> stands for the preprocessor symbol \<open>__KERNEL__\<close>. The macro
  \<open>LOG_MASK\<close> comes from \<open>syslog.h\<close>, which is not part of this unit; it is a
  parameter of the configuration.
\<close>

record config =
  CONFIG_SYSLOG :: bool
  CONFIG_NFILE_DESCRIPTORS :: int
  CONFIG_ARCH_LOWPUTC :: bool
  CONFIG_SYSLOG_TIMESTAMP :: bool
  CONFIG_BUILD_FLAT :: bool
  KERNEL :: bool
  LOG_MASK :: "int \<Rightarrow> int"

subsection \<open>Data\<close>

datatype arg = ArgInt int | ArgStr string

type_synonym va_list = "arg list"

record timespec =
  tv_sec :: int
  tv_nsec :: int

text \<open>
  The local \<open>stream\<close> object is identified by the initialiser that built it:
  \<open>lib_syslogstream(&stream)\<close>, \<open>lib_rawoutstream(&stream, fd)\<close> or
  \<open>lib_lowoutstream(&stream)\<close>.
\<close>

datatype outstream = lib_syslogstream | lib_rawoutstream int | lib_lowoutstream

datatype call =
    Call_clock_systimespec
  | Call_lib_sprintf outstream string va_list
  | Call_lib_vsprintf outstream string va_list
  | Call_lowvsyslog int string va_list

text \<open>
  The state a call runs in: the process-wide severity mask \<open>g_syslog_mask\<close> and the
  record of every call made to an external collaborator so far.
\<close>

record syslog_state =
  g_syslog_mask :: int
  trace :: "call list"

text \<open>
  The external collaborators. Each is a deterministic function of the history in which
  it is called and of its arguments, and gives the value the C call returns. The
  fallback \<open>lowvsyslog\<close> may read the whole state and reports the calls it makes
  itself.
\<close>

record externals =
  up_interrupt_context :: bool
  OSINIT_HW_READY :: bool
  clock_systimespec :: "call list \<Rightarrow> int \<times> timespec"
  lib_sprintf :: "call list \<Rightarrow> outstream \<Rightarrow> string \<Rightarrow> va_list \<Rightarrow> int"
  lib_vsprintf :: "call list \<Rightarrow> outstream \<Rightarrow> string \<Rightarrow> va_list \<Rightarrow> int"
  lowvsyslog :: "syslog_state \<Rightarrow> int \<Rightarrow> string \<Rightarrow> va_list \<Rightarrow> int \<times> call list"

subsection \<open>Calling a collaborator\<close>

definition record_call :: "call \<Rightarrow> syslog_state \<Rightarrow> syslog_state" where
  "record_call c s = s\<lparr>trace := trace s @ [c]\<rparr>"

definition call_clock_systimespec ::
  "externals \<Rightarrow> syslog_state \<Rightarrow> (int \<times> timespec) \<times> syslog_state" where
  "call_clock_systimespec ext s =
     (clock_systimespec ext (trace s), record_call Call_clock_systimespec s)"

definition call_lib_sprintf ::
  "externals \<Rightarrow> outstream \<Rightarrow> string \<Rightarrow> va_list \<Rightarrow> syslog_state \<Rightarrow> int \<times> syslog_state" where
  "call_lib_sprintf ext strm fmt args s =
     (lib_sprintf ext (trace s) strm fmt args, record_call (Call_lib_sprintf strm fmt args) s)"

definition call_lib_vsprintf ::
  "externals \<Rightarrow> outstream \<Rightarrow> string \<Rightarrow> va_list \<Rightarrow> syslog_state \<Rightarrow> int \<times> syslog_state" where
  "call_lib_vsprintf ext strm fmt ap s =
     (lib_vsprintf ext (trace s) strm fmt ap, record_call (Call_lib_vsprintf strm fmt ap) s)"

definition call_lowvsyslog ::
  "externals \<Rightarrow> int \<Rightarrow> string \<Rightarrow> va_list \<Rightarrow> syslog_state \<Rightarrow> int \<times> syslog_state" where
  "call_lowvsyslog ext priority fmt ap s =
     (fst (lowvsyslog ext s priority fmt ap),
      s\<lparr>trace := trace s @ Call_lowvsyslog priority fmt ap # snd (lowvsyslog ext s priority fmt ap)\<rparr>)"

subsection \<open>vsyslog_internal\<close>

text \<open>C division of signed integers truncates towards zero.\<close>

definition c_div :: "int \<Rightarrow> int \<Rightarrow> int" where
  "c_div a b = sgn a * sgn b * (\<bar>a\<bar> div \<bar>b\<bar>)"

definition ts_zero :: timespec where
  "ts_zero = \<lparr>tv_sec = 0, tv_nsec = 0\<rparr>"

text \<open>
  Lines 83 to 89: \<open>if (!OSINIT_HW_READY() || clock_systimespec(&ts) < 0)\<close> sets both
  fields of \<open>ts\<close> to 0. The \<open>||\<close> short-circuits: the clock is read only when the
  hardware is ready.
\<close>

definition get_time :: "externals \<Rightarrow> syslog_state \<Rightarrow> timespec \<times> syslog_state" where
  "get_time ext s =
     (if OSINIT_HW_READY ext then
        (let (r, s1) = call_clock_systimespec ext s
         in if fst r < 0 then (ts_zero, s1) else (snd r, s1))
      else (ts_zero, s))"

definition ts_format :: string where
  "ts_format = ''[%6d.%06d]''"

text \<open>
  Lines 102, 119 and 135: \<open>(void)lib_sprintf(&stream, "[%6d.%06d]", ts.tv_sec,
  ts.tv_nsec/1000)\<close>, present only with \<open>CONFIG_SYSLOG_TIMESTAMP\<close>. The value the call
  returns is discarded.
\<close>

definition prepend_time ::
  "config \<Rightarrow> externals \<Rightarrow> outstream \<Rightarrow> timespec \<Rightarrow> syslog_state \<Rightarrow> syslog_state" where
  "prepend_time cfg ext strm ts s =
     (if CONFIG_SYSLOG_TIMESTAMP cfg then
        snd (call_lib_sprintf ext strm ts_format
               [ArgInt (tv_sec ts), ArgInt (c_div (tv_nsec ts) 1000)] s)
      else s)"

text \<open>
  Without \<open>CONFIG_SYSLOG_TIMESTAMP\<close> the variable \<open>ts\<close> is not declared; the model
  carries \<open>ts_zero\<close> there, which is never read.
\<close>

definition vsyslog_internal ::
  "config \<Rightarrow> externals \<Rightarrow> string \<Rightarrow> va_list \<Rightarrow> syslog_state \<Rightarrow> int \<times> syslog_state" where
  "vsyslog_internal cfg ext fmt ap s =
     (let (ts, s1) = (if CONFIG_SYSLOG_TIMESTAMP cfg then get_time ext s else (ts_zero, s))
      in if CONFIG_SYSLOG cfg then
           call_lib_vsprintf ext lib_syslogstream fmt ap
             (prepend_time cfg ext lib_syslogstream ts s1)
         else if CONFIG_NFILE_DESCRIPTORS cfg > 0 then
           call_lib_vsprintf ext (lib_rawoutstream 1) fmt ap
             (prepend_time cfg ext (lib_rawoutstream 1) ts s1)
         else if CONFIG_ARCH_LOWPUTC cfg then
           call_lib_vsprintf ext lib_lowoutstream fmt ap
             (prepend_time cfg ext lib_lowoutstream ts s1)
         else (0, s1))"

subsection \<open>vsyslog and syslog\<close>

definition vsyslog ::
  "config \<Rightarrow> externals \<Rightarrow> int \<Rightarrow> string \<Rightarrow> va_list \<Rightarrow> syslog_state \<Rightarrow> int \<times> syslog_state" where
  "vsyslog cfg ext priority fmt ap s =
     (if \<not> CONFIG_SYSLOG cfg \<and> CONFIG_NFILE_DESCRIPTORS cfg > 0 \<and> up_interrupt_context ext then
        (if CONFIG_ARCH_LOWPUTC cfg \<and> (CONFIG_BUILD_FLAT cfg \<or> KERNEL cfg) then
           call_lowvsyslog ext priority fmt ap s
         else (0, s))
      else if g_syslog_mask s AND LOG_MASK cfg priority \<noteq> 0 then
        vsyslog_internal cfg ext fmt ap s
      else (0, s))"

text \<open>
  \<open>va_start\<close> collects the variadic arguments into the list \<open>ap\<close>; \<open>va_end\<close> has
  no effect on the result.
\<close>

definition syslog ::
  "config \<Rightarrow> externals \<Rightarrow> int \<Rightarrow> string \<Rightarrow> arg list \<Rightarrow> syslog_state \<Rightarrow> int \<times> syslog_state" where
  "syslog cfg ext priority fmt args s =
     (let ap = args;
          (ret, s1) = vsyslog cfg ext priority fmt ap s
      in (ret, s1))"

subsection \<open>The vocabulary of the specification\<close>

text \<open>
  The specification names the backend that the \<open>#if\<close> chain of \<open>vsyslog_internal\<close>
  selects: \<open>CONFIG_SYSLOG\<close> gives the structured channel, otherwise a positive
  \<open>CONFIG_NFILE_DESCRIPTORS\<close> gives the raw descriptor 1, otherwise
  \<open>CONFIG_ARCH_LOWPUTC\<close> gives the low-level console, otherwise there is no backend.
\<close>

datatype sink = StructuredSink | RawDescriptorSink | LowLevelConsoleSink | NullSink

definition active_sink :: "config \<Rightarrow> sink" where
  "active_sink cfg =
     (if CONFIG_SYSLOG cfg then StructuredSink
      else if CONFIG_NFILE_DESCRIPTORS cfg > 0 then RawDescriptorSink
      else if CONFIG_ARCH_LOWPUTC cfg then LowLevelConsoleSink
      else NullSink)"

fun sink_stream :: "sink \<Rightarrow> outstream option" where
  "sink_stream StructuredSink = Some lib_syslogstream"
| "sink_stream RawDescriptorSink = Some (lib_rawoutstream 1)"
| "sink_stream LowLevelConsoleSink = Some lib_lowoutstream"
| "sink_stream NullSink = None"

text \<open>
  Lines 174 to 188: the call of \<open>lowvsyslog\<close> exists only with
  \<open>CONFIG_ARCH_LOWPUTC\<close> and in the flat build or the kernel pass.
\<close>

definition fallback_available :: "config \<Rightarrow> bool" where
  "fallback_available cfg =
     (CONFIG_ARCH_LOWPUTC cfg \<and> (CONFIG_BUILD_FLAT cfg \<or> KERNEL cfg))"

text \<open>The calls a run from state \<open>s\<close> to state \<open>s'\<close> has added to the trace.\<close>

definition calls_made :: "syslog_state \<Rightarrow> syslog_state \<Rightarrow> call list" where
  "calls_made s s' = drop (length (trace s)) (trace s')"

text \<open>
  A sink write, and formatting work, is a call of the formatted-output engine: the
  engine renders and writes to the stream it is given.
\<close>

fun is_engine_call :: "call \<Rightarrow> bool" where
  "is_engine_call (Call_lib_sprintf strm fmt args) = True"
| "is_engine_call (Call_lib_vsprintf strm fmt ap) = True"
| "is_engine_call Call_clock_systimespec = False"
| "is_engine_call (Call_lowvsyslog priority fmt ap) = False"

definition engine_calls :: "call list \<Rightarrow> call list" where
  "engine_calls cs = filter is_engine_call cs"

subsection \<open>The collaborators as the specification describes them\<close>

text \<open>
  Modelled from the spec: the formatted-output engine (\<open>lib_sprintf\<close>,
  \<open>lib_vsprintf\<close>) is not part of this unit. The specification describes the
  timestamp prefix as the format \<open>[%6d.%06d]\<close>: a seconds field of minimum width 6
  padded with spaces and a microseconds field of width 6 padded with zeros. \<open>render\<close>
  is the engine's text for a format made of literal characters and \<open>%d\<close> conversions
  with an optional \<open>0\<close> flag and an optional minimum width.
\<close>

definition digits10 :: string where
  "digits10 = ''0123456789''"

definition is_digit :: "char \<Rightarrow> bool" where
  "is_digit c = (c \<in> set digits10)"

definition digit_val :: "char \<Rightarrow> nat" where
  "digit_val c = length (takeWhile (\<lambda>d. d \<noteq> c) digits10)"

fun dec :: "nat \<Rightarrow> string" where
  "dec n = (if n < 10 then [digits10 ! n] else dec (n div 10) @ [digits10 ! (n mod 10)])"

definition fmt_d :: "bool \<Rightarrow> nat \<Rightarrow> int \<Rightarrow> string" where
  "fmt_d zero width v =
     (let body = dec (nat \<bar>v\<bar>);
          sign = (if v < 0 then [CHR ''-''] else []);
          n = length sign + length body
      in if zero then sign @ replicate (width - n) (CHR ''0'') @ body
         else replicate (width - n) (CHR '' '') @ sign @ body)"

datatype directive = Text | Flags bool | Width bool nat

definition convert :: "bool \<Rightarrow> nat \<Rightarrow> char \<Rightarrow> va_list \<Rightarrow> string" where
  "convert zero width c args =
     (if c = CHR ''d'' then (case args of ArgInt v # rest \<Rightarrow> fmt_d zero width v | _ \<Rightarrow> [])
      else [c])"

definition consumed :: "char \<Rightarrow> va_list \<Rightarrow> va_list" where
  "consumed c args = (if c = CHR ''d'' then drop 1 args else args)"

fun render_from :: "directive \<Rightarrow> string \<Rightarrow> va_list \<Rightarrow> string" where
  "render_from st [] args = []"
| "render_from Text (c # cs) args =
     (if c = CHR ''%'' then render_from (Flags False) cs args
      else c # render_from Text cs args)"
| "render_from (Flags z) (c # cs) args =
     (if c = CHR ''0'' then render_from (Flags True) cs args
      else if is_digit c then render_from (Width z (digit_val c)) cs args
      else convert z 0 c args @ render_from Text cs (consumed c args))"
| "render_from (Width z w) (c # cs) args =
     (if is_digit c then render_from (Width z (10 * w + digit_val c)) cs args
      else convert z w c args @ render_from Text cs (consumed c args))"

definition render :: "string \<Rightarrow> va_list \<Rightarrow> string" where
  "render fmt args = render_from Text fmt args"

text \<open>The text of every timestamp prefix written by a list of calls.\<close>

fun prefix_text :: "call list \<Rightarrow> string list" where
  "prefix_text [] = []"
| "prefix_text (Call_lib_sprintf strm fmt args # cs) = render fmt args # prefix_text cs"
| "prefix_text (Call_lib_vsprintf strm fmt ap # cs) = prefix_text cs"
| "prefix_text (Call_clock_systimespec # cs) = prefix_text cs"
| "prefix_text (Call_lowvsyslog priority fmt ap # cs) = prefix_text cs"

text \<open>
  Modelled from the spec: the value the formatted-output engine returns
  (\<open>lib_sprintf\<close> and \<open>lib_vsprintf\<close> are not part of this unit). The specification
  gives the engine as \<open>render(sink, fmt, args) -> bytesWritten | error\<close>: it renders the
  format string and the argument list into a byte sequence written to the sink, and
  returns the number of bytes written or a negative error code. \<open>expand\<close> is the byte
  sequence a format and its arguments expand to; \<open>failure\<close> tells, for a call in a
  given history, whether formatting or writing fails and with which code.
\<close>

definition render_count ::
  "(string \<Rightarrow> va_list \<Rightarrow> string) \<Rightarrow>
   (call list \<Rightarrow> outstream \<Rightarrow> string \<Rightarrow> va_list \<Rightarrow> nat option) \<Rightarrow>
   call list \<Rightarrow> outstream \<Rightarrow> string \<Rightarrow> va_list \<Rightarrow> int" where
  "render_count expand failure h strm fmt ap =
     (case failure h strm fmt ap of
        None \<Rightarrow> int (length (expand fmt ap))
      | Some e \<Rightarrow> - int (Suc e))"

definition with_spec_engine ::
  "(string \<Rightarrow> va_list \<Rightarrow> string) \<Rightarrow>
   (call list \<Rightarrow> outstream \<Rightarrow> string \<Rightarrow> va_list \<Rightarrow> nat option) \<Rightarrow>
   externals \<Rightarrow> externals" where
  "with_spec_engine expand failure ext =
     ext\<lparr>lib_sprintf := render_count expand failure,
         lib_vsprintf := render_count expand failure\<rparr>"


text \<open>
  Modelled from the spec: \<open>lowvsyslog\<close>, the low-level console fallback, is declared
  outside this unit. The specification's dispatcher tests the priority against the
  severity mask after the fallback check (suppressed: return 0, no formatting work);
  otherwise it constructs the fallback sink, optionally writes the timestamp prefix,
  renders the message and returns the engine's count.
\<close>

definition lowvsyslog_spec ::
  "config \<Rightarrow> externals \<Rightarrow> syslog_state \<Rightarrow> int \<Rightarrow> string \<Rightarrow> va_list \<Rightarrow> int \<times> call list" where
  "lowvsyslog_spec cfg ext s priority fmt ap =
     (if g_syslog_mask s AND LOG_MASK cfg priority \<noteq> 0 then
        (let s0 = record_call (Call_lowvsyslog priority fmt ap) s;
             (ts, s1) = (if CONFIG_SYSLOG_TIMESTAMP cfg then get_time ext s0 else (ts_zero, s0));
             (ret, s2) = call_lib_vsprintf ext lib_lowoutstream fmt ap
                           (prepend_time cfg ext lib_lowoutstream ts s1)
         in (ret, calls_made s0 s2))
      else (0, []))"

definition with_spec_fallback :: "config \<Rightarrow> externals \<Rightarrow> externals" where
  "with_spec_fallback cfg ext = ext\<lparr>lowvsyslog := lowvsyslog_spec cfg ext\<rparr>"

subsection \<open>Concrete configurations, collaborators and states\<close>

definition log_mask_shift :: "int \<Rightarrow> int" where
  "log_mask_shift p = 2 ^ nat p"

definition cfg_structured :: config where
  "cfg_structured = \<lparr>CONFIG_SYSLOG = True, CONFIG_NFILE_DESCRIPTORS = 3,
     CONFIG_ARCH_LOWPUTC = True, CONFIG_SYSLOG_TIMESTAMP = True, CONFIG_BUILD_FLAT = True,
     KERNEL = False, LOG_MASK = log_mask_shift\<rparr>"

definition cfg_raw_fallback :: config where
  "cfg_raw_fallback = \<lparr>CONFIG_SYSLOG = False, CONFIG_NFILE_DESCRIPTORS = 3,
     CONFIG_ARCH_LOWPUTC = True, CONFIG_SYSLOG_TIMESTAMP = True, CONFIG_BUILD_FLAT = True,
     KERNEL = False, LOG_MASK = log_mask_shift\<rparr>"

definition cfg_raw_only :: config where
  "cfg_raw_only = \<lparr>CONFIG_SYSLOG = False, CONFIG_NFILE_DESCRIPTORS = 3,
     CONFIG_ARCH_LOWPUTC = False, CONFIG_SYSLOG_TIMESTAMP = True, CONFIG_BUILD_FLAT = True,
     KERNEL = False, LOG_MASK = log_mask_shift\<rparr>"

definition cfg_null :: config where
  "cfg_null = \<lparr>CONFIG_SYSLOG = False, CONFIG_NFILE_DESCRIPTORS = 0,
     CONFIG_ARCH_LOWPUTC = False, CONFIG_SYSLOG_TIMESTAMP = True, CONFIG_BUILD_FLAT = True,
     KERNEL = False, LOG_MASK = log_mask_shift\<rparr>"

text \<open>
  A task-context environment whose clock read fails, whose prefix write fails with
  \<open>-1\<close> and whose message write returns the length of the format; the same
  environment in interrupt context, with a fallback that returns 7; and one whose
  message write fails.
\<close>

definition ext_task :: externals where
  "ext_task = \<lparr>up_interrupt_context = False, OSINIT_HW_READY = True,
     clock_systimespec = (\<lambda>h. (- 1, \<lparr>tv_sec = 12, tv_nsec = 345678\<rparr>)),
     lib_sprintf = (\<lambda>h strm fmt args. - 1),
     lib_vsprintf = (\<lambda>h strm fmt ap. int (length fmt)),
     lowvsyslog = (\<lambda>s priority fmt ap. (7, []))\<rparr>"

definition ext_irq :: externals where
  "ext_irq = ext_task\<lparr>up_interrupt_context := True\<rparr>"

definition ext_failing :: externals where
  "ext_failing = ext_task\<lparr>lib_vsprintf := (\<lambda>h strm fmt ap. - 5)\<rparr>"

definition st_level3 :: syslog_state where
  "st_level3 = \<lparr>g_syslog_mask = 8, trace = []\<rparr>"


section \<open>Basic facts\<close>

lemmas concrete_defs =
  cfg_structured_def cfg_raw_fallback_def cfg_raw_only_def cfg_null_def
  ext_task_def ext_irq_def ext_failing_def st_level3_def log_mask_shift_def

lemmas call_defs =
  call_lowvsyslog_def call_lib_vsprintf_def call_lib_sprintf_def call_clock_systimespec_def
  record_call_def prepend_time_def get_time_def ts_zero_def ts_format_def c_div_def

lemmas render_defs =
  render_def is_digit_def digit_val_def digits10_def convert_def consumed_def fmt_d_def

lemma calls_made_append [simp]: "trace s' = trace s @ cs \<Longrightarrow> calls_made s s' = cs"
  by (simp add: calls_made_def)

lemma calls_made_self [simp]: "calls_made s s = []"
  by (simp add: calls_made_def)

subsection \<open>Reading the clock\<close>

lemma get_time_state:
  "snd (get_time ext s) =
     s\<lparr>trace := trace s @ (if OSINIT_HW_READY ext then [Call_clock_systimespec] else [])\<rparr>"
  by (simp add: get_time_def call_clock_systimespec_def record_call_def split: prod.splits)

lemma get_time_value:
  "fst (get_time ext s) =
     (if OSINIT_HW_READY ext \<and> \<not> fst (clock_systimespec ext (trace s)) < 0
      then snd (clock_systimespec ext (trace s)) else ts_zero)"
  by (simp add: get_time_def call_clock_systimespec_def split: prod.splits)

lemma get_time_lib_sprintf [simp]:
  "get_time (ext\<lparr>lib_sprintf := f\<rparr>) s = get_time ext s"
  by (simp add: get_time_def call_clock_systimespec_def)

lemma prepend_time_trace:
  "CONFIG_SYSLOG_TIMESTAMP cfg \<Longrightarrow>
   prepend_time cfg ext strm ts s =
     s\<lparr>trace := trace s @ [Call_lib_sprintf strm ''[%6d.%06d]''
                              [ArgInt (tv_sec ts), ArgInt (c_div (tv_nsec ts) 1000)]]\<rparr>"
  by (simp add: prepend_time_def call_lib_sprintf_def record_call_def ts_format_def)

subsection \<open>The three ways through vsyslog\<close>

lemma vsyslog_internal_stream:
  assumes "sink_stream (active_sink cfg) = Some strm"
  shows "vsyslog_internal cfg ext fmt ap s =
     (if CONFIG_SYSLOG_TIMESTAMP cfg then
        call_lib_vsprintf ext strm fmt ap
          (prepend_time cfg ext strm (fst (get_time ext s)) (snd (get_time ext s)))
      else call_lib_vsprintf ext strm fmt ap s)"
  using assms
  by (auto simp add: vsyslog_internal_def active_sink_def prepend_time_def
      split: if_splits prod.splits)

lemma vsyslog_internal_null:
  assumes "active_sink cfg = NullSink"
  shows "vsyslog_internal cfg ext fmt ap s =
     (0, if CONFIG_SYSLOG_TIMESTAMP cfg then snd (get_time ext s) else s)"
  using assms
  by (auto simp add: vsyslog_internal_def active_sink_def split: if_splits prod.splits)

lemma vsyslog_dispatch:
  "vsyslog cfg ext priority fmt ap s =
     (if active_sink cfg = RawDescriptorSink \<and> up_interrupt_context ext then
        (if fallback_available cfg then call_lowvsyslog ext priority fmt ap s else (0, s))
      else if g_syslog_mask s AND LOG_MASK cfg priority \<noteq> 0 then
        vsyslog_internal cfg ext fmt ap s
      else (0, s))"
  by (simp add: vsyslog_def fallback_available_def active_sink_def)

lemma syslog_vsyslog: "syslog cfg ext priority fmt args s = vsyslog cfg ext priority fmt args s"
  by (simp add: syslog_def)

lemma call_lowvsyslog_spec_masked:
  assumes "g_syslog_mask s AND LOG_MASK cfg P = 0"
  shows "call_lowvsyslog (with_spec_fallback cfg ext) P fmt ap s =
           (0, s\<lparr>trace := trace s @ [Call_lowvsyslog P fmt ap]\<rparr>)"
  using assms
  by (simp add: call_lowvsyslog_def with_spec_fallback_def lowvsyslog_spec_def)

lemma with_spec_engine_fields [simp]:
  "up_interrupt_context (with_spec_engine expand failure ext) = up_interrupt_context ext"
  "lib_vsprintf (with_spec_engine expand failure ext) = render_count expand failure"
  by (simp_all add: with_spec_engine_def)

subsection \<open>The delivered path\<close>

lemma delivered_eq:
  assumes "sink_stream (active_sink cfg) = Some strm"
    and "\<not> (active_sink cfg = RawDescriptorSink \<and> up_interrupt_context ext)"
    and "g_syslog_mask s AND LOG_MASK cfg P \<noteq> 0"
  shows "vsyslog cfg ext P fmt ap s =
     (if CONFIG_SYSLOG_TIMESTAMP cfg then
        call_lib_vsprintf ext strm fmt ap
          (prepend_time cfg ext strm (fst (get_time ext s)) (snd (get_time ext s)))
      else call_lib_vsprintf ext strm fmt ap s)"
  using assms vsyslog_internal_stream [of cfg strm ext fmt ap s]
  by (auto simp add: vsyslog_dispatch)

lemma delivered_trace:
  assumes "sink_stream (active_sink cfg) = Some strm"
    and "\<not> (active_sink cfg = RawDescriptorSink \<and> up_interrupt_context ext)"
    and "g_syslog_mask s AND LOG_MASK cfg P \<noteq> 0"
  shows "trace (snd (vsyslog cfg ext P fmt ap s)) =
     trace s @
     (if CONFIG_SYSLOG_TIMESTAMP cfg then
        (if OSINIT_HW_READY ext then [Call_clock_systimespec] else []) @
        [Call_lib_sprintf strm ''[%6d.%06d]''
           [ArgInt (tv_sec (fst (get_time ext s))),
            ArgInt (c_div (tv_nsec (fst (get_time ext s))) 1000)]]
      else []) @ [Call_lib_vsprintf strm fmt ap]"
  using assms
  by (simp add: delivered_eq prepend_time_trace call_lib_vsprintf_def record_call_def
      get_time_state)

lemma delivered_ret:
  assumes "sink_stream (active_sink cfg) = Some strm"
    and "\<not> (active_sink cfg = RawDescriptorSink \<and> up_interrupt_context ext)"
    and "g_syslog_mask s AND LOG_MASK cfg P \<noteq> 0"
  shows "fst (vsyslog cfg ext P fmt ap s) =
     lib_vsprintf ext (butlast (trace (snd (vsyslog cfg ext P fmt ap s)))) strm fmt ap"
  using assms
  by (simp add: delivered_eq prepend_time_trace call_lib_vsprintf_def record_call_def
      get_time_state butlast_append)

lemma delivered_ignores_prefix_result:
  assumes "sink_stream (active_sink cfg) = Some strm"
    and "\<not> (active_sink cfg = RawDescriptorSink \<and> up_interrupt_context ext)"
    and "g_syslog_mask s AND LOG_MASK cfg P \<noteq> 0"
  shows "vsyslog cfg (ext\<lparr>lib_sprintf := f\<rparr>) P fmt ap s = vsyslog cfg ext P fmt ap s"
proof -
  have "\<not> (active_sink cfg = RawDescriptorSink \<and> up_interrupt_context (ext\<lparr>lib_sprintf := f\<rparr>))"
    using assms(2) by simp
  from delivered_eq [OF assms(1) this assms(3)] delivered_eq [OF assms]
  show ?thesis
    by (simp add: prepend_time_trace call_lib_vsprintf_def)
qed

subsection \<open>What a call leaves of the state\<close>

lemma vsyslog_internal_frame:
  "snd (vsyslog_internal cfg ext fmt ap s) =
     s\<lparr>trace := trace s @ calls_made s (snd (vsyslog_internal cfg ext fmt ap s))\<rparr>"
  by (simp add: vsyslog_internal_def calls_made_def call_lib_vsprintf_def record_call_def
      prepend_time_def call_lib_sprintf_def get_time_def call_clock_systimespec_def
      split: prod.splits)

lemma call_lowvsyslog_frame:
  "snd (call_lowvsyslog ext P fmt ap s) =
     s\<lparr>trace := trace s @ calls_made s (snd (call_lowvsyslog ext P fmt ap s))\<rparr>"
  by (simp add: call_lowvsyslog_def calls_made_def)

lemma vsyslog_frame:
  "snd (vsyslog cfg ext P fmt ap s) =
     s\<lparr>trace := trace s @ calls_made s (snd (vsyslog cfg ext P fmt ap s))\<rparr>"
proof -
  have "vsyslog cfg ext P fmt ap s = call_lowvsyslog ext P fmt ap s
      \<or> vsyslog cfg ext P fmt ap s = vsyslog_internal cfg ext fmt ap s
      \<or> vsyslog cfg ext P fmt ap s = (0, s)"
    by (simp add: vsyslog_def)
  then consider (low) "vsyslog cfg ext P fmt ap s = call_lowvsyslog ext P fmt ap s"
    | (internal) "vsyslog cfg ext P fmt ap s = vsyslog_internal cfg ext fmt ap s"
    | (none) "vsyslog cfg ext P fmt ap s = (0, s)"
    by blast
  then show ?thesis
  proof cases
    case low
    show ?thesis by (simp only: low) (rule call_lowvsyslog_frame)
  next
    case internal
    show ?thesis by (simp only: internal) (rule vsyslog_internal_frame)
  next
    case none
    show ?thesis by (simp add: none)
  qed
qed

subsection \<open>The concrete configurations\<close>

lemma sink_structured: "active_sink cfg_structured = StructuredSink"
  by (simp add: active_sink_def concrete_defs)

lemma sink_raw_fallback: "active_sink cfg_raw_fallback = RawDescriptorSink"
  by (simp add: active_sink_def concrete_defs)

lemma sink_raw_only: "active_sink cfg_raw_only = RawDescriptorSink"
  by (simp add: active_sink_def concrete_defs)

lemma sink_null: "active_sink cfg_null = NullSink"
  by (simp add: active_sink_def concrete_defs)

section \<open>The claims\<close>

text \<open>
  C1. A call of \<open>syslog\<close> or \<open>vsyslog\<close> whose priority has its bit clear in the
  severity mask returns 0, performs no sink write and does no formatting work. In this
  unit the call returns \<open>(0, s)\<close>, the state untouched, on every path but one: in
  interrupt context with the raw descriptor backend and a fallback, the unit hands the
  call to \<open>lowvsyslog\<close>. With \<open>lowvsyslog\<close> as the specification describes it,
  the call returns 0 and calls the formatted-output engine not once, on every path.
\<close>

theorem suppressed_by_mask:
  assumes "g_syslog_mask s AND LOG_MASK cfg P = 0"
  shows "vsyslog cfg ext P fmt ap s =
           (if active_sink cfg = RawDescriptorSink \<and> up_interrupt_context ext then
              (if fallback_available cfg then call_lowvsyslog ext P fmt ap s else (0, s))
            else (0, s))
       \<and> fst (vsyslog cfg (with_spec_fallback cfg ext) P fmt ap s) = 0
       \<and> engine_calls (calls_made s (snd (vsyslog cfg (with_spec_fallback cfg ext) P fmt ap s))) = []
       \<and> syslog cfg (with_spec_fallback cfg ext) P fmt ap s =
           vsyslog cfg (with_spec_fallback cfg ext) P fmt ap s"
proof -
  have code: "vsyslog cfg e P fmt ap s =
           (if active_sink cfg = RawDescriptorSink \<and> up_interrupt_context e then
              (if fallback_available cfg then call_lowvsyslog e P fmt ap s else (0, s))
            else (0, s))" for e
    using assms by (simp add: vsyslog_dispatch)
  have irq: "up_interrupt_context (with_spec_fallback cfg ext) = up_interrupt_context ext"
    by (simp add: with_spec_fallback_def)
  have low: "call_lowvsyslog (with_spec_fallback cfg ext) P fmt ap s =
           (0, s\<lparr>trace := trace s @ [Call_lowvsyslog P fmt ap]\<rparr>)"
    using assms by (rule call_lowvsyslog_spec_masked)
  have ret: "fst (vsyslog cfg (with_spec_fallback cfg ext) P fmt ap s) = 0"
    by (simp add: code irq low)
  have quiet: "engine_calls
      (calls_made s (snd (vsyslog cfg (with_spec_fallback cfg ext) P fmt ap s))) = []"
    by (simp add: code irq low engine_calls_def)
  show ?thesis
    using code [of ext] ret quiet by (simp add: syslog_vsyslog)
qed

theorem suppressed_by_mask_witness:
  "g_syslog_mask st_level3 AND LOG_MASK cfg_raw_fallback 5 = 0
   \<and> vsyslog cfg_structured ext_task 5 ''ignored'' [] st_level3 = (0, st_level3)
   \<and> fst (vsyslog cfg_raw_fallback (with_spec_fallback cfg_raw_fallback ext_irq)
            5 ''ignored'' [] st_level3) = 0
   \<and> engine_calls (calls_made st_level3
        (snd (vsyslog cfg_raw_fallback (with_spec_fallback cfg_raw_fallback ext_irq)
                5 ''ignored'' [] st_level3))) = []"
proof -
  have h1: "g_syslog_mask st_level3 AND LOG_MASK cfg_raw_fallback 5 = 0"
    by (simp add: concrete_defs)
  have h2: "g_syslog_mask st_level3 AND LOG_MASK cfg_structured 5 = 0"
    by (simp add: concrete_defs)
  show ?thesis
    using suppressed_by_mask [OF h1, of ext_irq "''ignored''" "[]"]
      suppressed_by_mask [OF h2, of ext_task "''ignored''" "[]"] h1
    by (simp add: sink_structured)
qed

text \<open>
  C2. In interrupt context, with the raw descriptor backend and no fallback (no
  \<open>CONFIG_ARCH_LOWPUTC\<close>, or neither the flat build nor the kernel pass), every call
  returns 0 and calls no collaborator at all, whatever the severity mask holds.
\<close>

theorem interrupt_without_fallback_dropped:
  assumes "up_interrupt_context ext" and "active_sink cfg = RawDescriptorSink"
    and "\<not> fallback_available cfg"
  shows "vsyslog cfg ext P fmt ap s = (0, s) \<and> syslog cfg ext P fmt ap s = (0, s)
       \<and> calls_made s (snd (vsyslog cfg ext P fmt ap s)) = []"
  using assms by (simp add: vsyslog_dispatch syslog_vsyslog)

theorem interrupt_without_fallback_dropped_witness:
  "up_interrupt_context ext_irq \<and> active_sink cfg_raw_only = RawDescriptorSink
   \<and> g_syslog_mask st_level3 AND LOG_MASK cfg_raw_only 3 = 8
   \<and> vsyslog cfg_raw_only ext_irq 3 ''boot ok'' [] st_level3 = (0, st_level3)
   \<and> syslog cfg_raw_only ext_irq 3 ''boot ok'' [] st_level3 = (0, st_level3)"
proof -
  have h1: "up_interrupt_context ext_irq" by (simp add: concrete_defs)
  have h3: "\<not> fallback_available cfg_raw_only"
    by (simp add: fallback_available_def concrete_defs)
  have h4: "g_syslog_mask st_level3 AND LOG_MASK cfg_raw_only 3 = 8"
    by (simp add: concrete_defs)
  show ?thesis
    using interrupt_without_fallback_dropped
      [OF h1 sink_raw_only h3, of 3 "''boot ok''" "[]" st_level3] h1 sink_raw_only h4
    by simp
qed

text \<open>
  C3. In interrupt context, with the raw descriptor backend and the fallback available,
  \<open>vsyslog\<close> is exactly one call of \<open>lowvsyslog\<close>: it returns what \<open>lowvsyslog\<close>
  returns, the only calls made are that call and the calls \<open>lowvsyslog\<close> makes itself,
  and the result does not depend on the clock or on the formatted-output engine, which
  the task-context path would use.
\<close>

theorem interrupt_uses_fallback:
  assumes "up_interrupt_context ext" and "active_sink cfg = RawDescriptorSink"
    and "fallback_available cfg"
  shows "vsyslog cfg ext P fmt ap s = call_lowvsyslog ext P fmt ap s
       \<and> fst (vsyslog cfg ext P fmt ap s) = fst (lowvsyslog ext s P fmt ap)
       \<and> calls_made s (snd (vsyslog cfg ext P fmt ap s)) =
           Call_lowvsyslog P fmt ap # snd (lowvsyslog ext s P fmt ap)
       \<and> vsyslog cfg (ext\<lparr>clock_systimespec := c, lib_sprintf := f, lib_vsprintf := g\<rparr>)
           P fmt ap s = vsyslog cfg ext P fmt ap s"
  using assms by (simp add: vsyslog_dispatch call_lowvsyslog_def)

theorem interrupt_uses_fallback_witness:
  "up_interrupt_context ext_irq \<and> active_sink cfg_raw_fallback = RawDescriptorSink
   \<and> fallback_available cfg_raw_fallback
   \<and> vsyslog cfg_raw_fallback ext_irq 3 ''boot ok'' [] st_level3 =
       (7, st_level3\<lparr>trace := [Call_lowvsyslog 3 ''boot ok'' []]\<rparr>)"
proof -
  have h1: "up_interrupt_context ext_irq" by (simp add: concrete_defs)
  have h3: "fallback_available cfg_raw_fallback"
    by (simp add: fallback_available_def concrete_defs)
  show ?thesis
    using interrupt_uses_fallback
      [OF h1 sink_raw_fallback h3, of 3 "''boot ok''" "[]" st_level3] h1 sink_raw_fallback h3
    by (simp add: call_lowvsyslog_def concrete_defs)
qed

text \<open>
  C4. With timestamping configured, on a call that reaches a sink, when the hardware is
  not ready or the clock read fails: the timestamp is (0, 0); the calls made are the
  clock read (only if the hardware is ready), the prefix write with the format
  \<open>[%6d.%06d]\<close> and the arguments 0 and 0, and the message write; the text of the
  prefix is \<open>[     0.000000]\<close>; and the call returns what the message write returns,
  so the clock failure is not reported to the caller.
\<close>

theorem clock_failure_zero_timestamp:
  assumes "CONFIG_SYSLOG_TIMESTAMP cfg"
    and "sink_stream (active_sink cfg) = Some strm"
    and "\<not> (active_sink cfg = RawDescriptorSink \<and> up_interrupt_context ext)"
    and "g_syslog_mask s AND LOG_MASK cfg P \<noteq> 0"
    and "\<not> OSINIT_HW_READY ext \<or> fst (clock_systimespec ext (trace s)) < 0"
  shows "fst (get_time ext s) = \<lparr>tv_sec = 0, tv_nsec = 0\<rparr>
       \<and> calls_made s (snd (vsyslog cfg ext P fmt ap s)) =
           (if OSINIT_HW_READY ext then [Call_clock_systimespec] else []) @
           [Call_lib_sprintf strm ''[%6d.%06d]'' [ArgInt 0, ArgInt 0],
            Call_lib_vsprintf strm fmt ap]
       \<and> prefix_text (calls_made s (snd (vsyslog cfg ext P fmt ap s))) = [''[     0.000000]'']
       \<and> fst (vsyslog cfg ext P fmt ap s) =
           lib_vsprintf ext (butlast (trace (snd (vsyslog cfg ext P fmt ap s)))) strm fmt ap"
proof -
  have ts: "fst (get_time ext s) = \<lparr>tv_sec = 0, tv_nsec = 0\<rparr>"
    using assms(5) by (auto simp add: get_time_value ts_zero_def)
  have tr: "trace (snd (vsyslog cfg ext P fmt ap s)) =
      trace s @ ((if OSINIT_HW_READY ext then [Call_clock_systimespec] else []) @
        [Call_lib_sprintf strm ''[%6d.%06d]'' [ArgInt 0, ArgInt 0],
         Call_lib_vsprintf strm fmt ap])"
    using assms(1) delivered_trace [OF assms(2,3,4), of fmt ap]
    by (simp add: ts c_div_def)
  have cm: "calls_made s (snd (vsyslog cfg ext P fmt ap s)) =
        (if OSINIT_HW_READY ext then [Call_clock_systimespec] else []) @
        [Call_lib_sprintf strm ''[%6d.%06d]'' [ArgInt 0, ArgInt 0],
         Call_lib_vsprintf strm fmt ap]"
    using tr by (rule calls_made_append)
  have rd: "render ''[%6d.%06d]'' [ArgInt 0, ArgInt 0] = ''[     0.000000]''"
    by (simp add: render_defs)
  have px: "prefix_text (calls_made s (snd (vsyslog cfg ext P fmt ap s))) = [''[     0.000000]'']"
    unfolding cm using rd by simp
  show ?thesis
    using ts cm px delivered_ret [OF assms(2,3,4), of fmt ap] by simp
qed

theorem clock_failure_zero_timestamp_witness:
  "CONFIG_SYSLOG_TIMESTAMP cfg_structured
   \<and> sink_stream (active_sink cfg_structured) = Some lib_syslogstream
   \<and> OSINIT_HW_READY ext_task
   \<and> clock_systimespec ext_task (trace st_level3) = (- 1, \<lparr>tv_sec = 12, tv_nsec = 345678\<rparr>)
   \<and> calls_made st_level3 (snd (vsyslog cfg_structured ext_task 3 ''boot ok'' [] st_level3)) =
       [Call_clock_systimespec,
        Call_lib_sprintf lib_syslogstream ''[%6d.%06d]'' [ArgInt 0, ArgInt 0],
        Call_lib_vsprintf lib_syslogstream ''boot ok'' []]
   \<and> prefix_text (calls_made st_level3
        (snd (vsyslog cfg_structured ext_task 3 ''boot ok'' [] st_level3))) = [''[     0.000000]'']
   \<and> fst (vsyslog cfg_structured ext_task 3 ''boot ok'' [] st_level3) = 7"
proof -
  have h1: "CONFIG_SYSLOG_TIMESTAMP cfg_structured" by (simp add: concrete_defs)
  have h2: "sink_stream (active_sink cfg_structured) = Some lib_syslogstream"
    by (simp add: sink_structured)
  have h3: "\<not> (active_sink cfg_structured = RawDescriptorSink \<and> up_interrupt_context ext_task)"
    by (simp add: sink_structured)
  have h4: "g_syslog_mask st_level3 AND LOG_MASK cfg_structured 3 \<noteq> 0"
    by (simp add: concrete_defs)
  have r: "OSINIT_HW_READY ext_task" by (simp add: concrete_defs)
  have c: "clock_systimespec ext_task (trace st_level3) = (- 1, \<lparr>tv_sec = 12, tv_nsec = 345678\<rparr>)"
    by (simp add: concrete_defs)
  have h5: "\<not> OSINIT_HW_READY ext_task \<or> fst (clock_systimespec ext_task (trace st_level3)) < 0"
    by (simp add: c)
  have e: "lib_vsprintf ext_task h lib_syslogstream ''boot ok'' [] = 7" for h
    by (simp add: concrete_defs)
  show ?thesis
    using clock_failure_zero_timestamp [OF h1 h2 h3 h4 h5, of "''boot ok''" "[]"] h1 h2 r c
    by (simp add: e render_defs)
qed

text \<open>
  C5. With timestamping configured, on a call that reaches a sink, the prefix write and
  the message write are two separate calls of the engine, the prefix first. Whatever
  the prefix write returns, a failure included, leaves the result and the calls of
  \<open>vsyslog\<close> unchanged: the message is rendered and written all the same.
\<close>

theorem prefix_write_independent:
  assumes "CONFIG_SYSLOG_TIMESTAMP cfg"
    and "sink_stream (active_sink cfg) = Some strm"
    and "\<not> (active_sink cfg = RawDescriptorSink \<and> up_interrupt_context ext)"
    and "g_syslog_mask s AND LOG_MASK cfg P \<noteq> 0"
  shows "vsyslog cfg (ext\<lparr>lib_sprintf := f\<rparr>) P fmt ap s = vsyslog cfg ext P fmt ap s
       \<and> calls_made s (snd (vsyslog cfg ext P fmt ap s)) =
           calls_made s (snd (get_time ext s)) @
           [Call_lib_sprintf strm ''[%6d.%06d]''
              [ArgInt (tv_sec (fst (get_time ext s))),
               ArgInt (c_div (tv_nsec (fst (get_time ext s))) 1000)],
            Call_lib_vsprintf strm fmt ap]"
proof -
  have tr: "trace (snd (vsyslog cfg ext P fmt ap s)) =
      trace s @ (calls_made s (snd (get_time ext s)) @
           [Call_lib_sprintf strm ''[%6d.%06d]''
              [ArgInt (tv_sec (fst (get_time ext s))),
               ArgInt (c_div (tv_nsec (fst (get_time ext s))) 1000)],
            Call_lib_vsprintf strm fmt ap])"
    using assms(1) delivered_trace [OF assms(2,3,4), of fmt ap]
    by (simp add: get_time_state)
  show ?thesis
    using delivered_ignores_prefix_result [OF assms(2,3,4)] calls_made_append [OF tr]
    by simp
qed

theorem prefix_write_independent_witness:
  "CONFIG_SYSLOG_TIMESTAMP cfg_raw_only
   \<and> sink_stream (active_sink cfg_raw_only) = Some (lib_rawoutstream 1)
   \<and> lib_sprintf ext_task [Call_clock_systimespec] (lib_rawoutstream 1) ''[%6d.%06d]''
        [ArgInt 0, ArgInt 0] = - 1
   \<and> vsyslog cfg_raw_only (ext_task\<lparr>lib_sprintf := (\<lambda>h strm fmt args. 15)\<rparr>)
        3 ''boot ok'' [] st_level3 = vsyslog cfg_raw_only ext_task 3 ''boot ok'' [] st_level3
   \<and> calls_made st_level3 (snd (vsyslog cfg_raw_only ext_task 3 ''boot ok'' [] st_level3)) =
        [Call_clock_systimespec,
         Call_lib_sprintf (lib_rawoutstream 1) ''[%6d.%06d]'' [ArgInt 0, ArgInt 0],
         Call_lib_vsprintf (lib_rawoutstream 1) ''boot ok'' []]"
proof -
  have h1: "CONFIG_SYSLOG_TIMESTAMP cfg_raw_only" by (simp add: concrete_defs)
  have h2: "sink_stream (active_sink cfg_raw_only) = Some (lib_rawoutstream 1)"
    by (simp add: sink_raw_only)
  have h3: "\<not> (active_sink cfg_raw_only = RawDescriptorSink \<and> up_interrupt_context ext_task)"
    by (simp add: concrete_defs)
  have h4: "g_syslog_mask st_level3 AND LOG_MASK cfg_raw_only 3 \<noteq> 0"
    by (simp add: concrete_defs)
  have f: "lib_sprintf ext_task [Call_clock_systimespec] (lib_rawoutstream 1) ''[%6d.%06d]''
        [ArgInt 0, ArgInt 0] = - 1"
    by (simp add: concrete_defs)
  have g: "get_time ext_task st_level3 =
      (\<lparr>tv_sec = 0, tv_nsec = 0\<rparr>, st_level3\<lparr>trace := [Call_clock_systimespec]\<rparr>)"
    by (simp add: concrete_defs call_defs)
  show ?thesis
    using prefix_write_independent [OF h1 h2 h3 h4, of "\<lambda>h strm fmt args. 15" "''boot ok''" "[]"]
      h1 h2 f
    by (simp add: g calls_made_def c_div_def) (simp add: concrete_defs)
qed



text \<open>
  C7. With no backend configured, every call of \<open>vsyslog\<close> and \<open>syslog\<close> returns 0
  and never calls the formatted-output engine, for every priority, format and argument
  list. The only collaborator it may call is the clock, when timestamping is
  configured, the priority is enabled and the hardware is ready.
\<close>

theorem null_sink_returns_zero:
  assumes "active_sink cfg = NullSink"
  shows "fst (vsyslog cfg ext P fmt ap s) = 0 \<and> fst (syslog cfg ext P fmt ap s) = 0
       \<and> engine_calls (calls_made s (snd (vsyslog cfg ext P fmt ap s))) = []
       \<and> calls_made s (snd (vsyslog cfg ext P fmt ap s)) =
           (if g_syslog_mask s AND LOG_MASK cfg P \<noteq> 0 \<and> CONFIG_SYSLOG_TIMESTAMP cfg
               \<and> OSINIT_HW_READY ext
            then [Call_clock_systimespec] else [])"
  using assms
  by (simp add: vsyslog_dispatch vsyslog_internal_null syslog_vsyslog get_time_state
      engine_calls_def calls_made_def)

theorem null_sink_returns_zero_witness:
  "active_sink cfg_null = NullSink
   \<and> g_syslog_mask st_level3 AND LOG_MASK cfg_null 3 = 8
   \<and> fst (vsyslog cfg_null ext_task 3 ''x=%d'' [ArgInt 5] st_level3) = 0
   \<and> fst (syslog cfg_null ext_task 3 ''x=%d'' [ArgInt 5] st_level3) = 0
   \<and> engine_calls (calls_made st_level3
        (snd (vsyslog cfg_null ext_task 3 ''x=%d'' [ArgInt 5] st_level3))) = []"
proof -
  have m: "g_syslog_mask st_level3 AND LOG_MASK cfg_null 3 = 8"
    by (simp add: concrete_defs)
  show ?thesis
    using null_sink_returns_zero [OF sink_null, of ext_task 3 "''x=%d''" "[ArgInt 5]" st_level3]
      sink_null m
    by (simp add: engine_calls_def)
qed

text \<open>
  C8. For every priority, format and argument list, \<open>syslog\<close> returns exactly what
  \<open>vsyslog\<close> returns on the collected arguments, and leaves the same state.
\<close>

theorem syslog_is_vsyslog:
  "syslog cfg ext priority fmt args s = vsyslog cfg ext priority fmt args s"
  by (simp add: syslog_def)

theorem syslog_is_vsyslog_witness:
  "syslog cfg_structured ext_task 3 ''boot ok'' [] st_level3 =
     vsyslog cfg_structured ext_task 3 ''boot ok'' [] st_level3"
  using syslog_is_vsyslog [of cfg_structured ext_task 3 "''boot ok''" "[]" st_level3]
  by simp

text \<open>
  C9. No call of \<open>vsyslog\<close> or \<open>syslog\<close> changes \<open>g_syslog_mask\<close>: the state after
  the call is the state before it with the calls made added to the trace, and nothing
  else changed.
\<close>

theorem mask_never_modified:
  "g_syslog_mask (snd (vsyslog cfg ext P fmt ap s)) = g_syslog_mask s
   \<and> g_syslog_mask (snd (syslog cfg ext P fmt ap s)) = g_syslog_mask s
   \<and> snd (vsyslog cfg ext P fmt ap s) =
       s\<lparr>trace := trace s @ calls_made s (snd (vsyslog cfg ext P fmt ap s))\<rparr>
   \<and> snd (syslog cfg ext P fmt ap s) =
       s\<lparr>trace := trace s @ calls_made s (snd (syslog cfg ext P fmt ap s))\<rparr>"
proof -
  have f: "snd (vsyslog cfg ext P fmt ap s) =
       s\<lparr>trace := trace s @ calls_made s (snd (vsyslog cfg ext P fmt ap s))\<rparr>"
    by (rule vsyslog_frame)
  have m: "g_syslog_mask (snd (vsyslog cfg ext P fmt ap s)) = g_syslog_mask s"
    by (subst f) simp
  show ?thesis
    using f m by (simp add: syslog_vsyslog)
qed

theorem mask_never_modified_witness:
  "g_syslog_mask (snd (vsyslog cfg_structured ext_task 3 ''boot ok'' [] st_level3)) = 8
   \<and> g_syslog_mask (snd (syslog cfg_raw_fallback ext_irq 3 ''boot ok'' [] st_level3)) = 8"
proof -
  have m: "g_syslog_mask st_level3 = 8" by (simp add: concrete_defs)
  show ?thesis
    using mask_never_modified [of cfg_structured ext_task 3 "''boot ok''" "[]" st_level3]
      mask_never_modified [of cfg_raw_fallback ext_irq 3 "''boot ok''" "[]" st_level3]
    by (simp add: m)
qed

text \<open>
  C10. With the raw descriptor backend and the fallback available, \<open>vsyslog\<close> in
  interrupt context is the call of \<open>lowvsyslog\<close> whatever the severity mask holds,
  also when every bit of it is clear; the test of the mask is made only on the other
  path, in task context, where a clear bit gives 0 with no call made.
\<close>

theorem fallback_skips_mask_check:
  assumes "active_sink cfg = RawDescriptorSink" and "fallback_available cfg"
  shows "vsyslog cfg ext P fmt ap s =
           (if up_interrupt_context ext then call_lowvsyslog ext P fmt ap s
            else if g_syslog_mask s AND LOG_MASK cfg P \<noteq> 0 then vsyslog_internal cfg ext fmt ap s
            else (0, s))
       \<and> vsyslog cfg (ext\<lparr>up_interrupt_context := True\<rparr>) P fmt ap (s\<lparr>g_syslog_mask := m\<rparr>) =
           call_lowvsyslog ext P fmt ap (s\<lparr>g_syslog_mask := m\<rparr>)
       \<and> vsyslog cfg (ext\<lparr>up_interrupt_context := False\<rparr>) P fmt ap (s\<lparr>g_syslog_mask := 0\<rparr>) =
           (0, s\<lparr>g_syslog_mask := 0\<rparr>)"
  using assms by (simp add: vsyslog_dispatch call_lowvsyslog_def)

theorem fallback_skips_mask_check_witness:
  "active_sink cfg_raw_fallback = RawDescriptorSink \<and> fallback_available cfg_raw_fallback
   \<and> g_syslog_mask st_level3 AND LOG_MASK cfg_raw_fallback 5 = 0
   \<and> vsyslog cfg_raw_fallback ext_irq 5 ''ignored'' [] st_level3 =
       (7, st_level3\<lparr>trace := [Call_lowvsyslog 5 ''ignored'' []]\<rparr>)
   \<and> vsyslog cfg_raw_fallback ext_task 5 ''ignored'' [] st_level3 = (0, st_level3)"
proof -
  have h2: "fallback_available cfg_raw_fallback"
    by (simp add: fallback_available_def concrete_defs)
  have m: "g_syslog_mask st_level3 AND LOG_MASK cfg_raw_fallback 5 = 0"
    by (simp add: concrete_defs)
  have i: "up_interrupt_context ext_irq" "\<not> up_interrupt_context ext_task"
    by (simp_all add: concrete_defs)
  have l: "call_lowvsyslog ext_irq 5 ''ignored'' [] st_level3 =
       (7, st_level3\<lparr>trace := [Call_lowvsyslog 5 ''ignored'' []]\<rparr>)"
    by (simp add: call_lowvsyslog_def concrete_defs)
  show ?thesis
    using fallback_skips_mask_check
        [OF sink_raw_fallback h2, of ext_irq 5 "''ignored''" "[]" st_level3]
      fallback_skips_mask_check
        [OF sink_raw_fallback h2, of ext_task 5 "''ignored''" "[]" st_level3]
      sink_raw_fallback h2 m
    by (simp add: i l)
qed

end
